theory Spec2Isabelle
  imports Main "HOL-Library.Signed_Division"
begin

section \<open>Values read from the ledger\<close>

text \<open>
  An \<open>Address\<close> is a JavaScript string (\<open>set-protocol-utils\<close>), compared character by
  character. A \<open>BigNumber\<close> (bignumber.js) is an arbitrary-precision number; the amounts,
  timestamps and states handled here are integers in base units, so it is an unbounded
  integer, and its arithmetic is exact. The one operation that leaves the integers,
  \<open>modulo\<close> by zero, yields \<open>NaN\<close>, written \<open>None\<close>.
\<close>

type_synonym Address = string

type_synonym BigNumber = int

definition greaterThan :: "BigNumber \<Rightarrow> BigNumber \<Rightarrow> bool" where
  "greaterThan x y = (x > y)"

definition greaterThanOrEqualTo :: "BigNumber \<Rightarrow> BigNumber \<Rightarrow> bool" where
  "greaterThanOrEqualTo x y = (x \<ge> y)"

definition eq :: "BigNumber \<Rightarrow> BigNumber \<Rightarrow> bool" where
  "eq x y = (x = y)"

text \<open>
  \<open>x.modulo(y)\<close> with the library's default \<open>MODULO_MODE\<close>: the remainder of the division
  truncated towards zero (it has the sign of \<open>x\<close>, as JavaScript's \<open>%\<close>), and \<open>NaN\<close> when
  \<open>y\<close> is zero. \<open>isZero\<close> is false of \<open>NaN\<close>.
\<close>

definition modulo :: "BigNumber \<Rightarrow> BigNumber \<Rightarrow> BigNumber option" where
  "modulo x y = (if y = 0 then None else Some (x smod y))"

definition isZero :: "BigNumber option \<Rightarrow> bool" where
  "isZero r = (r = Some 0)"

subsection \<open>types/common.ts\<close>

definition DEFAULT :: BigNumber where
  "DEFAULT = 0"

definition PROPOSAL :: BigNumber where
  "PROPOSAL = 1"

definition REBALANCE :: BigNumber where
  "REBALANCE = 2"

subsection \<open>Errors\<close>

text \<open>
  Every assertion throws \<open>new Error(message)\<close>, the message built by a function of the
  errors module from the arguments shown in the source. A constructor stands for the
  message function and keeps the arguments it is given (a \<open>BigNumber\<close> passed as
  \<open>toString()\<close> is kept as the number). \<open>InsufficientBalance\<close> is the failure the
  specification gives the balance check: the component, the required amount, the actual
  balance. \<open>INVALID_ADDRESS\<close> is the failure of the schema assertion, with the name of the
  variable and its value; \<open>TypeError\<close> is JavaScript's, for a property read of \<open>undefined\<close>.
\<close>

datatype error =
    REBALANCE_IN_PROGRESS Address
  | INCORRECT_STATE Address string
  | NOT_REBALANCING_MANAGER Address
  | INSUFFICIENT_TIME_PASSED string
  | NOT_ENOUGH_SETS_REBALANCED Address BigNumber BigNumber
  | BID_AMOUNT_EXCEEDS_REMAINING_CURRENT_SETS BigNumber BigNumber
  | BID_AMOUNT_NOT_MULTIPLE_OF_MINIMUM_BID BigNumber BigNumber
  | InsufficientBalance Address BigNumber BigNumber
  | INVALID_ADDRESS string Address
  | QUANTITY_NEEDS_TO_BE_POSITIVE BigNumber
  | IS_NOT_COMPONENT Address Address
  | TypeError

subsection \<open>The contracts\<close>

text \<open>
  The state of a rebalancing set token that the assertions read, one field for each
  accessor called with \<open>callAsync\<close>. \<open>getBidPrice\<close> answers a quantity with the inflow and
  the outflow arrays.
\<close>

record RebalancingSetTokenContract =
  rebalanceState :: BigNumber
  manager :: Address
  lastRebalanceTimestamp :: BigNumber
  rebalanceInterval :: BigNumber
  minimumBid :: BigNumber
  remainingCurrentSets :: BigNumber
  getBidPrice :: "BigNumber \<Rightarrow> BigNumber list \<times> BigNumber list"
  getCombinedTokenArray :: "Address list"

text \<open>
  The state of a Set that \<open>SetTokenWrapper\<close> reads: its natural unit, the units of its
  components and their addresses.
\<close>

record SetTokenContract =
  naturalUnit :: BigNumber
  getUnits :: "BigNumber list"
  getComponents :: "Address list"

text \<open>
  The ledger behind \<open>web3\<close>: the rebalancing set token at an address, the Set at an
  address, and the balance an owner holds of an ERC20 token (token first, owner second).
  Every assertion reads it anew; none writes to it.
  \<open>RebalancingSetTokenContract.at\<close> belongs to the contracts package: it hands out the
  instance at the address, and its own failures (no contract there, no network) are
  outside this development.
\<close>

record Web3 =
  rebalancingSetTokens :: "Address \<Rightarrow> RebalancingSetTokenContract"
  setTokens :: "Address \<Rightarrow> SetTokenContract"
  balanceOf :: "Address \<Rightarrow> Address \<Rightarrow> BigNumber"

definition RebalancingSetTokenContract_at :: "Web3 \<Rightarrow> Address \<Rightarrow> RebalancingSetTokenContract" where
  "RebalancingSetTokenContract_at web3 rebalancingSetTokenAddress =
     rebalancingSetTokens web3 rebalancingSetTokenAddress"

subsection \<open>Arrays and promises\<close>

text \<open>
  A JavaScript array read \<open>xs[i]\<close>: \<open>undefined\<close>, written \<open>None\<close>, outside the array.
  \<open>_.map(xs, (x, index) => ...)\<close> hands each element to the iteratee with its index.
  \<open>_.indexOf\<close> runs through the array from the left and returns the first index that
  holds the value, \<open>-1\<close> when none does.
\<close>

definition array_get :: "'a list \<Rightarrow> int \<Rightarrow> 'a option" where
  "array_get xs i = (if 0 \<le> i \<and> i < int (length xs) then Some (xs ! nat i) else None)"

definition map_index :: "('a \<Rightarrow> nat \<Rightarrow> 'b) \<Rightarrow> 'a list \<Rightarrow> 'b list" where
  "map_index iteratee xs = map (\<lambda>index. iteratee (xs ! index) index) [0..<length xs]"



text \<open>
  \<open>Promise.all(promises)\<close> is rejected as soon as one of the promises is, with that
  promise's error, and fulfilled with all the values once every promise is fulfilled. The
  promises handed to it here are all pending on reads of the ledger, and the ledger's
  answers decide which settles first. That order is the argument \<open>settled\<close>: indices of
  promises, the earliest first; a promise that it does not list settles after the listed
  ones, in the order of the array.
\<close>

fun firstRejection :: "nat list \<Rightarrow> (error + 'a) list \<Rightarrow> error option" where
  "firstRejection [] promises = None"
| "firstRejection (i # later) promises =
     (if i < length promises
      then (case promises ! i of Inl e \<Rightarrow> Some e | Inr v \<Rightarrow> firstRejection later promises)
      else firstRejection later promises)"

definition Promise_all :: "nat list \<Rightarrow> (error + 'a) list \<Rightarrow> error + 'a list" where
  "Promise_all settled promises =
     (case firstRejection (settled @ [0..<length promises]) promises of
        Some e \<Rightarrow> Inl e
      | None \<Rightarrow> Inr (map projr promises))"

section \<open>RebalancingAssertions\<close>

text \<open>
  An assertion is an \<open>async\<close> function of type \<open>Promise<void>\<close>: it is fulfilled, \<open>Inr ()\<close>,
  or rejected with the error it throws, \<open>Inl\<close>.
\<close>

definition isNotInRebalanceState :: "Web3 \<Rightarrow> Address \<Rightarrow> error + unit" where
  "isNotInRebalanceState web3 rebalancingSetTokenAddress =
     (let rebalancingSetTokenInstance = RebalancingSetTokenContract_at web3 rebalancingSetTokenAddress;
          currentState = rebalanceState rebalancingSetTokenInstance
      in if eq currentState REBALANCE
         then Inl (REBALANCE_IN_PROGRESS rebalancingSetTokenAddress)
         else Inr ())"

definition isInProposalState :: "Web3 \<Rightarrow> Address \<Rightarrow> error + unit" where
  "isInProposalState web3 rebalancingSetTokenAddress =
     (let rebalancingSetTokenInstance = RebalancingSetTokenContract_at web3 rebalancingSetTokenAddress;
          currentState = rebalanceState rebalancingSetTokenInstance
      in if \<not> eq currentState PROPOSAL
         then Inl (INCORRECT_STATE rebalancingSetTokenAddress ''Proposal'')
         else Inr ())"

definition isInRebalanceState :: "Web3 \<Rightarrow> Address \<Rightarrow> error + unit" where
  "isInRebalanceState web3 rebalancingSetTokenAddress =
     (let rebalancingSetTokenInstance = RebalancingSetTokenContract_at web3 rebalancingSetTokenAddress;
          currentState = rebalanceState rebalancingSetTokenInstance
      in if \<not> eq currentState REBALANCE
         then Inl (INCORRECT_STATE rebalancingSetTokenAddress ''Rebalance'')
         else Inr ())"

text \<open>\<open>manager != caller\<close> on two strings: they differ in length or in some character.\<close>

definition isManager :: "Web3 \<Rightarrow> Address \<Rightarrow> Address \<Rightarrow> error + unit" where
  "isManager web3 rebalancingSetTokenAddress caller =
     (let rebalancingSetTokenInstance = RebalancingSetTokenContract_at web3 rebalancingSetTokenAddress;
          manager = manager rebalancingSetTokenInstance
      in if manager \<noteq> caller
         then Inl (NOT_REBALANCING_MANAGER caller)
         else Inr ())"


definition enoughSetsRebalanced :: "Web3 \<Rightarrow> Address \<Rightarrow> error + unit" where
  "enoughSetsRebalanced web3 rebalancingSetTokenAddress =
     (let rebalancingSetTokenInstance = RebalancingSetTokenContract_at web3 rebalancingSetTokenAddress;
          minimumBid = minimumBid rebalancingSetTokenInstance;
          remainingCurrentSets = remainingCurrentSets rebalancingSetTokenInstance
      in if greaterThanOrEqualTo remainingCurrentSets minimumBid
         then Inl (NOT_ENOUGH_SETS_REBALANCED rebalancingSetTokenAddress minimumBid remainingCurrentSets)
         else Inr ())"

definition bidAmountLessThanRemainingSets :: "Web3 \<Rightarrow> Address \<Rightarrow> BigNumber \<Rightarrow> error + unit" where
  "bidAmountLessThanRemainingSets web3 rebalancingSetTokenAddress bidQuantity =
     (let rebalancingSetTokenInstance = RebalancingSetTokenContract_at web3 rebalancingSetTokenAddress;
          remainingCurrentSets = remainingCurrentSets rebalancingSetTokenInstance
      in if greaterThan bidQuantity remainingCurrentSets
         then Inl (BID_AMOUNT_EXCEEDS_REMAINING_CURRENT_SETS remainingCurrentSets bidQuantity)
         else Inr ())"

definition bidIsMultipleOfMinimumBid :: "Web3 \<Rightarrow> Address \<Rightarrow> BigNumber \<Rightarrow> error + unit" where
  "bidIsMultipleOfMinimumBid web3 rebalancingSetTokenAddress bidQuantity =
     (let rebalancingSetTokenInstance = RebalancingSetTokenContract_at web3 rebalancingSetTokenAddress;
          minimumBid = minimumBid rebalancingSetTokenInstance
      in if \<not> isZero (modulo bidQuantity minimumBid)
         then Inl (BID_AMOUNT_NOT_MULTIPLE_OF_MINIMUM_BID bidQuantity minimumBid)
         else Inr ())"

text \<open>
  Modelled from the spec: \<open>ERC20Assertions.hasSufficientBalanceAsync\<close>, called for each
  component and not among the sources. The specification has it read the bidder's
  balance of the component and fail with \<open>InsufficientBalance(component, required, actual)\<close>
  on a shortfall, the boundary inclusive (\<open>balance >= required\<close> passes). A required
  balance that is \<open>undefined\<close> is no inflow to fund, and passes.
\<close>

definition hasSufficientBalanceAsync :: "Web3 \<Rightarrow> Address \<Rightarrow> Address \<Rightarrow> BigNumber option \<Rightarrow> error + unit" where
  "hasSufficientBalanceAsync web3 tokenAddress ownerAddress requiredBalance =
     (case requiredBalance of
        None \<Rightarrow> Inr ()
      | Some required \<Rightarrow>
          (let actual = balanceOf web3 tokenAddress ownerAddress
           in if greaterThanOrEqualTo actual required
              then Inr ()
              else Inl (InsufficientBalance tokenAddress required actual)))"

text \<open>
  \<open>DetailedERC20Contract.at(component, ...)\<close> hands out the instance of the token at the
  component's address; the only use made of an instance is its \<open>address\<close>, so the instance is
  that address. The balance checks are started together by \<open>_.map\<close> and awaited by
  \<open>Promise.all\<close>, in whose order of settlement (\<open>settled\<close>) the first rejection wins.
\<close>

definition hasSufficientBalances :: "Web3 \<Rightarrow> nat list \<Rightarrow> Address \<Rightarrow> Address \<Rightarrow> BigNumber \<Rightarrow> error + unit" where
  "hasSufficientBalances web3 settled rebalancingSetTokenAddress ownerAddress quantity =
     (let rebalancingSetTokenInstance = RebalancingSetTokenContract_at web3 rebalancingSetTokenAddress
      in case getBidPrice rebalancingSetTokenInstance quantity of
           (inflowArray, outflowArray) \<Rightarrow>
             (let components = getCombinedTokenArray rebalancingSetTokenInstance;
                  componentInstances = components;
                  userHasSufficientBalancePromises =
                    map_index
                      (\<lambda>componentInstance index.
                         (let requiredBalance = array_get inflowArray (int index)
                          in hasSufficientBalanceAsync web3 componentInstance ownerAddress requiredBalance))
                      componentInstances
              in case Promise_all settled userHasSufficientBalancePromises of
                   Inl e \<Rightarrow> Inl e
                 | Inr fulfilled \<Rightarrow> Inr ()))"

section \<open>SetTokenAPI\<close>

record Component =
  address :: "Address option"
  unit :: BigNumber







section \<open>The normalisation of the specification\<close>

text \<open>
  The specification asks implementers to normalise addresses before comparing them, for
  example to lower case. \<open>toLowerCase\<close> is that normalisation on the letters of an
  address, written out to compare against; no function of the source calls it.
\<close>

definition toLowerCase_char :: "char \<Rightarrow> char" where
  "toLowerCase_char c =
     (case map_of (zip ''ABCDEFGHIJKLMNOPQRSTUVWXYZ'' ''abcdefghijklmnopqrstuvwxyz'') c of
        Some l \<Rightarrow> l
      | None \<Rightarrow> c)"

definition toLowerCase :: "string \<Rightarrow> string" where
  "toLowerCase s = map toLowerCase_char s"

section \<open>A ledger to evaluate on\<close>

text \<open>
  Three component tokens, a rebalancing set in its auction with a minimum bid of 100 and
  500 sets remaining, a Set of two components, and two bidders: \<open>bidder\<close> holds 40 of
  \<open>tokenA\<close> and of \<open>tokenB\<close>, \<open>funded\<close> holds 40 of \<open>tokenA\<close> only; both hold 1000 of
  everything else. A bid of quantity \<open>q\<close> needs \<open>q div 4\<close> of \<open>tokenC\<close> and \<open>q div 2\<close> of each
  of the other two.
\<close>

definition tokenA :: Address where
  "tokenA = ''0xaaaaaaaaaaaaaaaaaaaaaaaaaaaaaaaaaaaaaaaa''"

definition tokenB :: Address where
  "tokenB = ''0xbbbbbbbbbbbbbbbbbbbbbbbbbbbbbbbbbbbbbbbb''"

definition tokenC :: Address where
  "tokenC = ''0xcccccccccccccccccccccccccccccccccccccccc''"

definition theSet :: Address where
  "theSet = ''0x5e75e75e75e75e75e75e75e75e75e75e75e75e75''"

definition bidder :: Address where
  "bidder = ''0x1111111111111111111111111111111111111111''"

definition funded :: Address where
  "funded = ''0x2222222222222222222222222222222222222222''"

definition theManager :: Address where
  "theManager = ''0x5aAeb6053F3E94C9b9A09f33669435E7Ef1BeAed''"

definition basket :: RebalancingSetTokenContract where
  "basket = \<lparr> rebalanceState = REBALANCE, manager = theManager,
      lastRebalanceTimestamp = 1500000000, rebalanceInterval = 86400,
      minimumBid = 100, remainingCurrentSets = 500,
      getBidPrice = (\<lambda>quantity. ([quantity div 4, quantity div 2, quantity div 2], [0, 0, 0])),
      getCombinedTokenArray = [tokenC, tokenA, tokenB] \<rparr>"

definition ledgerWith :: "RebalancingSetTokenContract \<Rightarrow> Web3" where
  "ledgerWith b = \<lparr> rebalancingSetTokens = (\<lambda>a. b),
      setTokens = (\<lambda>a. \<lparr> naturalUnit = 10, getUnits = [1, 2], getComponents = [tokenA, tokenB] \<rparr>),
      balanceOf = (\<lambda>token owner.
        if token = tokenA \<or> (token = tokenB \<and> owner = bidder) then 40 else 1000) \<rparr>"

definition ledger :: Web3 where
  "ledger = ledgerWith basket"




section \<open>The guards of the lifecycle\<close>

lemmas ledger_defs = ledger_def ledgerWith_def basket_def REBALANCE_def PROPOSAL_def DEFAULT_def
  tokenA_def tokenB_def tokenC_def theSet_def bidder_def funded_def theManager_def

lemma isNotInRebalanceState_unfold:
  "isNotInRebalanceState w a =
     (if rebalanceState (rebalancingSetTokens w a) = REBALANCE
      then Inl (REBALANCE_IN_PROGRESS a) else Inr ())"
  by (simp add: isNotInRebalanceState_def RebalancingSetTokenContract_at_def eq_def Let_def)

lemma isInProposalState_unfold:
  "isInProposalState w a =
     (if rebalanceState (rebalancingSetTokens w a) \<noteq> PROPOSAL
      then Inl (INCORRECT_STATE a ''Proposal'') else Inr ())"
  by (simp add: isInProposalState_def RebalancingSetTokenContract_at_def eq_def Let_def)

lemma isInRebalanceState_unfold:
  "isInRebalanceState w a =
     (if rebalanceState (rebalancingSetTokens w a) \<noteq> REBALANCE
      then Inl (INCORRECT_STATE a ''Rebalance'') else Inr ())"
  by (simp add: isInRebalanceState_def RebalancingSetTokenContract_at_def eq_def Let_def)

lemma isManager_unfold:
  "isManager w a caller =
     (if manager (rebalancingSetTokens w a) \<noteq> caller
      then Inl (NOT_REBALANCING_MANAGER caller) else Inr ())"
  by (simp add: isManager_def RebalancingSetTokenContract_at_def Let_def)


lemma bidAmountLessThanRemainingSets_unfold:
  "bidAmountLessThanRemainingSets w a bidQuantity =
     (if bidQuantity > remainingCurrentSets (rebalancingSetTokens w a)
      then Inl (BID_AMOUNT_EXCEEDS_REMAINING_CURRENT_SETS
             (remainingCurrentSets (rebalancingSetTokens w a)) bidQuantity)
      else Inr ())"
  by (simp add: bidAmountLessThanRemainingSets_def RebalancingSetTokenContract_at_def
      greaterThan_def Let_def)

lemma smod_zero_iff: "((x::int) smod y = 0) = (x mod y = 0)"
  by (auto simp: smod_int_alt_def sgn_if mod_eq_0_iff_dvd)

lemma isZero_modulo: "y \<noteq> 0 \<Longrightarrow> isZero (modulo x y) = (x mod y = 0)"
  by (simp add: isZero_def modulo_def smod_zero_iff)

lemma bidIsMultipleOfMinimumBid_unfold:
  "bidIsMultipleOfMinimumBid w a bidQuantity =
     (if \<not> isZero (modulo bidQuantity (minimumBid (rebalancingSetTokens w a)))
      then Inl (BID_AMOUNT_NOT_MULTIPLE_OF_MINIMUM_BID bidQuantity
             (minimumBid (rebalancingSetTokens w a)))
      else Inr ())"
  by (simp add: bidIsMultipleOfMinimumBid_def RebalancingSetTokenContract_at_def Let_def)

lemma enoughSetsRebalanced_unfold:
  "enoughSetsRebalanced w a =
     (if remainingCurrentSets (rebalancingSetTokens w a) \<ge> minimumBid (rebalancingSetTokens w a)
      then Inl (NOT_ENOUGH_SETS_REBALANCED a (minimumBid (rebalancingSetTokens w a))
             (remainingCurrentSets (rebalancingSetTokens w a)))
      else Inr ())"
  by (simp add: enoughSetsRebalanced_def RebalancingSetTokenContract_at_def
      greaterThanOrEqualTo_def Let_def)

text \<open>
  C1. On every basket whose minimum bid is positive, \<open>enoughSetsRebalanced\<close> throws
  \<open>NOT_ENOUGH_SETS_REBALANCED\<close> (with the address, the minimum bid and the remaining sets)
  exactly when the remaining current sets are at least the minimum bid, and returns
  exactly when they are below it.
\<close>

theorem enoughSetsRebalanced_direction:
  assumes "0 < minimumBid (rebalancingSetTokens w a)"
  shows "(enoughSetsRebalanced w a =
            Inl (NOT_ENOUGH_SETS_REBALANCED a (minimumBid (rebalancingSetTokens w a))
                  (remainingCurrentSets (rebalancingSetTokens w a))))
           = (remainingCurrentSets (rebalancingSetTokens w a) \<ge> minimumBid (rebalancingSetTokens w a))
       \<and> isl (enoughSetsRebalanced w a)
           = (remainingCurrentSets (rebalancingSetTokens w a) \<ge> minimumBid (rebalancingSetTokens w a))
       \<and> (enoughSetsRebalanced w a = Inr ())
           = (remainingCurrentSets (rebalancingSetTokens w a) < minimumBid (rebalancingSetTokens w a))"
  by (simp add: enoughSetsRebalanced_unfold)

theorem enoughSetsRebalanced_direction_witness:
  "0 < minimumBid (rebalancingSetTokens ledger theSet)
   \<and> enoughSetsRebalanced ledger theSet = Inl (NOT_ENOUGH_SETS_REBALANCED theSet 100 500)
   \<and> 0 < minimumBid (rebalancingSetTokens (ledgerWith (basket\<lparr>remainingCurrentSets := 99\<rparr>)) theSet)
   \<and> enoughSetsRebalanced (ledgerWith (basket\<lparr>remainingCurrentSets := 99\<rparr>)) theSet = Inr ()"
proof -
  have pos: "0 < minimumBid (rebalancingSetTokens ledger theSet)"
    by (simp add: ledger_defs)
  have pos': "0 < minimumBid (rebalancingSetTokens (ledgerWith (basket\<lparr>remainingCurrentSets := 99\<rparr>)) theSet)"
    by (simp add: ledger_defs)
  from enoughSetsRebalanced_direction [OF pos] enoughSetsRebalanced_direction [OF pos'] pos pos'
  show ?thesis
    by (simp add: ledger_defs)
qed

text \<open>
  C7. \<open>isInProposalState\<close> throws \<open>INCORRECT_STATE\<close> (for \<open>Proposal\<close>) when the basket is in
  the Rebalance phase, and whenever its phase is not Proposal; it returns when the phase
  is Proposal.
\<close>

theorem isInProposalState_phase:
  "(rebalanceState (rebalancingSetTokens w a) = REBALANCE \<longrightarrow>
      isInProposalState w a = Inl (INCORRECT_STATE a ''Proposal''))
   \<and> (rebalanceState (rebalancingSetTokens w a) \<noteq> PROPOSAL \<longrightarrow>
      isInProposalState w a = Inl (INCORRECT_STATE a ''Proposal''))
   \<and> (rebalanceState (rebalancingSetTokens w a) = PROPOSAL \<longrightarrow>
      isInProposalState w a = Inr ())"
  by (simp add: isInProposalState_unfold REBALANCE_def PROPOSAL_def)

theorem isInProposalState_phase_witness:
  "isInProposalState ledger theSet = Inl (INCORRECT_STATE theSet ''Proposal'')
   \<and> isInProposalState (ledgerWith (basket\<lparr>rebalanceState := PROPOSAL\<rparr>)) theSet = Inr ()"
  using isInProposalState_phase [where w = ledger and a = theSet]
        isInProposalState_phase
          [where w = "ledgerWith (basket\<lparr>rebalanceState := PROPOSAL\<rparr>)" and a = theSet]
  by (simp add: ledger_defs)

text \<open>
  C9. When the state read from the ledger is none of \<open>DEFAULT\<close>, \<open>PROPOSAL\<close> and
  \<open>REBALANCE\<close> (3, say), \<open>isNotInRebalanceState\<close> returns while \<open>isInProposalState\<close> and
  \<open>isInRebalanceState\<close> both throw: each guard compares the number with one constant.
\<close>

theorem unknown_phase_guards:
  assumes "rebalanceState (rebalancingSetTokens w a) \<notin> {DEFAULT, PROPOSAL, REBALANCE}"
  shows "isNotInRebalanceState w a = Inr ()
       \<and> isInProposalState w a = Inl (INCORRECT_STATE a ''Proposal'')
       \<and> isInRebalanceState w a = Inl (INCORRECT_STATE a ''Rebalance'')"
  using assms
  by (simp add: isNotInRebalanceState_unfold isInProposalState_unfold isInRebalanceState_unfold)

theorem unknown_phase_guards_witness:
  "rebalanceState (rebalancingSetTokens (ledgerWith (basket\<lparr>rebalanceState := 3\<rparr>)) theSet)
      \<notin> {DEFAULT, PROPOSAL, REBALANCE}
   \<and> isNotInRebalanceState (ledgerWith (basket\<lparr>rebalanceState := 3\<rparr>)) theSet = Inr ()
   \<and> isInProposalState (ledgerWith (basket\<lparr>rebalanceState := 3\<rparr>)) theSet
       = Inl (INCORRECT_STATE theSet ''Proposal'')
   \<and> isInRebalanceState (ledgerWith (basket\<lparr>rebalanceState := 3\<rparr>)) theSet
       = Inl (INCORRECT_STATE theSet ''Rebalance'')"
proof -
  have unknown: "rebalanceState (rebalancingSetTokens (ledgerWith (basket\<lparr>rebalanceState := 3\<rparr>)) theSet)
      \<notin> {DEFAULT, PROPOSAL, REBALANCE}"
    by (simp add: ledger_defs)
  from unknown_phase_guards [OF unknown] unknown show ?thesis
    by simp
qed



text \<open>
  C8, as amended. \<open>isManager\<close> throws \<open>NOT_REBALANCING_MANAGER\<close> exactly when the caller
  differs from the manager read from the contract, the two compared as the strings they
  are: nothing is normalised, so an address written in another letter case is not the
  manager.
\<close>

theorem isManager_exact_string:
  "(isManager w a caller = Inr ()) = (caller = manager (rebalancingSetTokens w a))
   \<and> (caller \<noteq> manager (rebalancingSetTokens w a) \<longrightarrow>
        isManager w a caller = Inl (NOT_REBALANCING_MANAGER caller))"
  by (auto simp add: isManager_unfold)

theorem isManager_exact_string_witness:
  "isManager ledger theSet ''0x5aAeb6053F3E94C9b9A09f33669435E7Ef1BeAed'' = Inr ()
   \<and> isManager ledger theSet bidder = Inl (NOT_REBALANCING_MANAGER bidder)"
  using isManager_exact_string
          [where w = ledger and a = theSet and caller = "''0x5aAeb6053F3E94C9b9A09f33669435E7Ef1BeAed''"]
        isManager_exact_string [where w = ledger and a = theSet and caller = bidder]
  by (simp add: ledger_defs)

text \<open>
  C8 as stated fails: the manager is read as a checksummed, mixed-case address, the
  caller is the same address in lower case, the two are equal once lower-cased, and
  \<open>isManager\<close> throws.
\<close>

theorem isManager_normalised_counterexample:
  "toLowerCase ''0x5aaeb6053f3e94c9b9a09f33669435e7ef1beaed''
     = toLowerCase (manager (rebalancingSetTokens ledger theSet))
   \<and> isManager ledger theSet ''0x5aaeb6053f3e94c9b9a09f33669435e7ef1beaed''
       = Inl (NOT_REBALANCING_MANAGER ''0x5aaeb6053f3e94c9b9a09f33669435e7ef1beaed'')"
  by (simp add: isManager_unfold ledger_defs toLowerCase_def toLowerCase_char_def)

section \<open>The quantity of a bid\<close>

text \<open>
  C5. \<open>bidAmountLessThanRemainingSets\<close> throws \<open>BID_AMOUNT_EXCEEDS_REMAINING_CURRENT_SETS\<close>
  exactly when the bid quantity is greater than the remaining current sets, and returns
  otherwise; a bid of exactly the remaining sets returns.
\<close>

theorem bidAmountLessThanRemainingSets_boundary:
  "isl (bidAmountLessThanRemainingSets w a bidQuantity)
      = (bidQuantity > remainingCurrentSets (rebalancingSetTokens w a))
   \<and> (bidQuantity > remainingCurrentSets (rebalancingSetTokens w a) \<longrightarrow>
        bidAmountLessThanRemainingSets w a bidQuantity
          = Inl (BID_AMOUNT_EXCEEDS_REMAINING_CURRENT_SETS
                  (remainingCurrentSets (rebalancingSetTokens w a)) bidQuantity))
   \<and> (bidQuantity \<le> remainingCurrentSets (rebalancingSetTokens w a) \<longrightarrow>
        bidAmountLessThanRemainingSets w a bidQuantity = Inr ())
   \<and> bidAmountLessThanRemainingSets w a (remainingCurrentSets (rebalancingSetTokens w a)) = Inr ()"
  by (simp add: bidAmountLessThanRemainingSets_unfold)

theorem bidAmountLessThanRemainingSets_boundary_witness:
  "bidAmountLessThanRemainingSets ledger theSet 501
     = Inl (BID_AMOUNT_EXCEEDS_REMAINING_CURRENT_SETS 500 501)
   \<and> bidAmountLessThanRemainingSets ledger theSet 500 = Inr ()
   \<and> bidAmountLessThanRemainingSets ledger theSet 200 = Inr ()"
  using bidAmountLessThanRemainingSets_boundary [where w = ledger and a = theSet and bidQuantity = 501]
        bidAmountLessThanRemainingSets_boundary [where w = ledger and a = theSet and bidQuantity = 200]
  by (simp add: ledger_defs)

text \<open>
  C6. When the minimum bid is positive, \<open>bidIsMultipleOfMinimumBid\<close> returns if and only
  if \<open>bidQuantity mod minimumBid = 0\<close>, and otherwise throws
  \<open>BID_AMOUNT_NOT_MULTIPLE_OF_MINIMUM_BID\<close>: with a minimum bid of 100, a bid of 150 throws
  and a bid of 200 returns.
\<close>

theorem bidIsMultipleOfMinimumBid_iff:
  assumes "0 < minimumBid (rebalancingSetTokens w a)"
  shows "(bidIsMultipleOfMinimumBid w a bidQuantity = Inr ())
           = (bidQuantity mod minimumBid (rebalancingSetTokens w a) = 0)
       \<and> (bidQuantity mod minimumBid (rebalancingSetTokens w a) \<noteq> 0 \<longrightarrow>
            bidIsMultipleOfMinimumBid w a bidQuantity
              = Inl (BID_AMOUNT_NOT_MULTIPLE_OF_MINIMUM_BID bidQuantity
                      (minimumBid (rebalancingSetTokens w a))))"
  using assms by (simp add: bidIsMultipleOfMinimumBid_unfold isZero_modulo)

theorem bidIsMultipleOfMinimumBid_iff_witness:
  "0 < minimumBid (rebalancingSetTokens ledger theSet)
   \<and> bidIsMultipleOfMinimumBid ledger theSet 150
       = Inl (BID_AMOUNT_NOT_MULTIPLE_OF_MINIMUM_BID 150 100)
   \<and> bidIsMultipleOfMinimumBid ledger theSet 200 = Inr ()"
proof -
  have pos: "0 < minimumBid (rebalancingSetTokens ledger theSet)"
    by (simp add: ledger_defs)
  from bidIsMultipleOfMinimumBid_iff [OF pos, where bidQuantity = 150]
       bidIsMultipleOfMinimumBid_iff [OF pos, where bidQuantity = 200] pos
  show ?thesis
    by (simp add: ledger_defs)
qed

section \<open>The balances of the bidder\<close>

lemma length_map_index: "length (map_index f xs) = length xs"
  by (simp add: map_index_def)

lemma nth_map_index: "k < length xs \<Longrightarrow> map_index f xs ! k = f (xs ! k) k"
  by (simp add: map_index_def)

lemma firstRejection_skip:
  "\<forall>k\<in>set pre. k < length ps \<longrightarrow> \<not> isl (ps ! k)
     \<Longrightarrow> firstRejection (pre @ rest) ps = firstRejection rest ps"
proof (induction pre)
  case Nil
  then show ?case by simp
next
  case (Cons k pre)
  then show ?case by (cases "ps ! k") auto
qed



lemma Promise_all_first_settled:
  assumes "settled @ [0..<length ps] = pre @ i # post"
      and "\<forall>k\<in>set pre. k < length ps \<longrightarrow> \<not> isl (ps ! k)"
      and "i < length ps" and "ps ! i = Inl e"
  shows "Promise_all settled ps = Inl e"
proof -
  have "firstRejection (pre @ i # post) ps = firstRejection (i # post) ps"
    using assms(2) by (rule firstRejection_skip)
  also have "\<dots> = Some e"
    using assms(3,4) by simp
  finally show ?thesis
    using assms(1) by (simp add: Promise_all_def)
qed



lemma hasSufficientBalances_unfold:
  "hasSufficientBalances w settled a owner quantity =
     (case Promise_all settled
        (map_index
           (\<lambda>component index. hasSufficientBalanceAsync w component owner
              (array_get (fst (getBidPrice (rebalancingSetTokens w a) quantity)) (int index)))
           (getCombinedTokenArray (rebalancingSetTokens w a))) of
        Inl e \<Rightarrow> Inl e
      | Inr fulfilled \<Rightarrow> Inr ())"
  by (simp add: hasSufficientBalances_def RebalancingSetTokenContract_at_def Let_def
      split: prod.splits)

lemma hasSufficientBalanceAsync_at:
  "k < length inflowArray \<Longrightarrow>
   hasSufficientBalanceAsync w component owner (array_get inflowArray (int k)) =
     (if balanceOf w component owner < inflowArray ! k
      then Inl (InsufficientBalance component (inflowArray ! k) (balanceOf w component owner))
      else Inr ())"
  by (simp add: hasSufficientBalanceAsync_def array_get_def greaterThanOrEqualTo_def Let_def)

lemma hasSufficientBalanceAsync_undefined:
  "\<not> k < length inflowArray \<Longrightarrow>
   hasSufficientBalanceAsync w component owner (array_get inflowArray (int k)) = Inr ()"
  by (simp add: hasSufficientBalanceAsync_def array_get_def)

lemma check_passes:
  "(k < length inflowArray \<longrightarrow> inflowArray ! k \<le> balanceOf w component owner) \<Longrightarrow>
   \<not> isl (hasSufficientBalanceAsync w component owner (array_get inflowArray (int k)))"
  by (cases "k < length inflowArray")
     (simp_all add: hasSufficientBalanceAsync_at hasSufficientBalanceAsync_undefined)

lemma ledger_components: "getCombinedTokenArray (rebalancingSetTokens ledger theSet) = [tokenC, tokenA, tokenB]"
  by (simp add: ledger_def ledgerWith_def basket_def)

lemma ledger_inflow: "fst (getBidPrice (rebalancingSetTokens ledger theSet) q) = [q div 4, q div 2, q div 2]"
  by (simp add: ledger_def ledgerWith_def basket_def)

lemma ledger_balances:
  "balanceOf ledger tokenA bidder = 40" "balanceOf ledger tokenB bidder = 40"
  "balanceOf ledger tokenC bidder = 1000"
  "balanceOf ledger tokenA funded = 40" "balanceOf ledger tokenB funded = 1000"
  "balanceOf ledger tokenC funded = 1000"
  by (simp_all add: ledger_defs)

text \<open>
  C2, as amended. Where two distinct components A and B, A before B in the combined
  token array, both hold less of the bidder's balance than the required inflow,
  \<open>hasSufficientBalances\<close> reports the failure of the check that is rejected first in the
  order in which the checks settle: it is A's \<open>InsufficientBalance\<close>, and not B's, when
  every check that settles before A's passes. When the checks settle in the order of the
  array, that is the case as soon as no component before A falls short.
\<close>

theorem hasSufficientBalances_first_settled_failure:
  assumes comps: "components = getCombinedTokenArray (rebalancingSetTokens w a)"
      and inflow: "inflowArray = fst (getBidPrice (rebalancingSetTokens w a) quantity)"
      and order: "i < j" "j < length components" "j < length inflowArray"
      and A: "components ! i = A" "balanceOf w A owner < inflowArray ! i"
      and B: "components ! j = B" "balanceOf w B owner < inflowArray ! j" "A \<noteq> B"
      and settle: "settled @ [0..<length components] = pre @ i # post"
      and before: "\<forall>k\<in>set pre. k < length components \<and> k < length inflowArray
                     \<longrightarrow> inflowArray ! k \<le> balanceOf w (components ! k) owner"
  shows "hasSufficientBalances w settled a owner quantity
           = Inl (InsufficientBalance A (inflowArray ! i) (balanceOf w A owner))
       \<and> hasSufficientBalances w settled a owner quantity
           \<noteq> Inl (InsufficientBalance B (inflowArray ! j) (balanceOf w B owner))"
proof -
  let ?check = "\<lambda>component index. hasSufficientBalanceAsync w component owner
                  (array_get inflowArray (int index))"
  let ?ps = "map_index ?check components"
  have len: "length ?ps = length components"
    by (rule length_map_index)
  have i: "i < length components" "i < length inflowArray"
    using order by simp_all
  have at_i: "?ps ! i = Inl (InsufficientBalance A (inflowArray ! i) (balanceOf w A owner))"
    using i A by (simp add: nth_map_index hasSufficientBalanceAsync_at)
  have pass: "\<forall>k\<in>set pre. k < length ?ps \<longrightarrow> \<not> isl (?ps ! k)"
  proof (intro ballI impI)
    fix k assume k: "k \<in> set pre" "k < length ?ps"
    then have "k < length components" by (simp add: len)
    moreover from this k(1) before
    have "k < length inflowArray \<longrightarrow> inflowArray ! k \<le> balanceOf w (components ! k) owner"
      by blast
    ultimately show "\<not> isl (?ps ! k)"
      by (simp add: nth_map_index check_passes)
  qed
  have "Promise_all settled ?ps = Inl (InsufficientBalance A (inflowArray ! i) (balanceOf w A owner))"
    using settle pass i(1) at_i by (intro Promise_all_first_settled) (simp_all add: len)
  then have "hasSufficientBalances w settled a owner quantity
               = Inl (InsufficientBalance A (inflowArray ! i) (balanceOf w A owner))"
    by (simp add: hasSufficientBalances_unfold comps inflow)
  with B(3) show ?thesis by simp
qed

theorem hasSufficientBalances_first_settled_failure_witness:
  "balanceOf ledger tokenA bidder < 50 \<and> balanceOf ledger tokenB bidder < 50
   \<and> hasSufficientBalances ledger [0, 1, 2] theSet bidder 100 = Inl (InsufficientBalance tokenA 50 40)
   \<and> hasSufficientBalances ledger [] theSet bidder 100 = Inl (InsufficientBalance tokenA 50 40)
   \<and> hasSufficientBalances ledger [1, 2, 0] theSet bidder 100 \<noteq> Inl (InsufficientBalance tokenB 50 40)"
proof -
  have AB: "tokenA \<noteq> tokenB"
    by (simp add: tokenA_def tokenB_def)
  have inflow: "[25, 50, 50] = fst (getBidPrice (rebalancingSetTokens ledger theSet) 100)"
    by (simp add: ledger_inflow)
  have comps: "[tokenC, tokenA, tokenB] = getCombinedTokenArray (rebalancingSetTokens ledger theSet)"
    by (simp add: ledger_components)
  have upt3: "[0..<3] = [0, 1, 2]"
    by (simp add: upt_rec)
  have one: "hasSufficientBalances ledger [0, 1, 2] theSet bidder 100
      = Inl (InsufficientBalance tokenA ([25, 50, 50] ! 1) (balanceOf ledger tokenA bidder))
    \<and> hasSufficientBalances ledger [0, 1, 2] theSet bidder 100
      \<noteq> Inl (InsufficientBalance tokenB ([25, 50, 50] ! 2) (balanceOf ledger tokenB bidder))"
    by (rule hasSufficientBalances_first_settled_failure
          [where components = "[tokenC, tokenA, tokenB]" and inflowArray = "[25, 50, 50]"
             and i = 1 and j = 2 and pre = "[0]" and post = "[2, 0, 1, 2]", OF comps inflow _ _ _ _ _ _ _ AB])
       (simp_all add: ledger_balances upt3)
  have two: "hasSufficientBalances ledger [] theSet bidder 100
      = Inl (InsufficientBalance tokenA ([25, 50, 50] ! 1) (balanceOf ledger tokenA bidder))
    \<and> hasSufficientBalances ledger [] theSet bidder 100
      \<noteq> Inl (InsufficientBalance tokenB ([25, 50, 50] ! 2) (balanceOf ledger tokenB bidder))"
    by (rule hasSufficientBalances_first_settled_failure
          [where components = "[tokenC, tokenA, tokenB]" and inflowArray = "[25, 50, 50]"
             and i = 1 and j = 2 and pre = "[0]" and post = "[2]", OF comps inflow _ _ _ _ _ _ _ AB])
       (simp_all add: ledger_balances upt3)
  have three: "hasSufficientBalances ledger [1, 2, 0] theSet bidder 100
      = Inl (InsufficientBalance tokenA ([25, 50, 50] ! 1) (balanceOf ledger tokenA bidder))
    \<and> hasSufficientBalances ledger [1, 2, 0] theSet bidder 100
      \<noteq> Inl (InsufficientBalance tokenB ([25, 50, 50] ! 2) (balanceOf ledger tokenB bidder))"
    by (rule hasSufficientBalances_first_settled_failure
          [where components = "[tokenC, tokenA, tokenB]" and inflowArray = "[25, 50, 50]"
             and i = 1 and j = 2 and pre = "[]" and post = "[2, 0, 0, 1, 2]", OF comps inflow _ _ _ _ _ _ _ AB])
       (simp_all add: ledger_balances upt3)
  from one two three AB show ?thesis
    by (simp add: ledger_balances)
qed

text \<open>
  C2 as stated fails: \<open>tokenA\<close> stands before \<open>tokenB\<close> in the combined token array, the
  bidder holds 40 of each where 50 are required, the check of \<open>tokenB\<close> settles first, and
  the failure reported is that of \<open>tokenB\<close>.
\<close>

theorem hasSufficientBalances_second_settles_first_counterexample:
  "getCombinedTokenArray (rebalancingSetTokens ledger theSet) = [tokenC, tokenA, tokenB]
   \<and> fst (getBidPrice (rebalancingSetTokens ledger theSet) 100) = [25, 50, 50]
   \<and> balanceOf ledger tokenA bidder = 40 \<and> balanceOf ledger tokenB bidder = 40
   \<and> hasSufficientBalances ledger [2] theSet bidder 100 = Inl (InsufficientBalance tokenB 50 40)"
  by code_simp




section \<open>The amount of a component for issuance\<close>










end
